theory Spec2Isabelle
  imports Complex_Main "HOL-Library.Sublist"
begin

section \<open>The HERE routing client (herepy/routing\_api.py)\<close>

text \<open>
  A shallow embedding of the class \<open>RoutingApi\<close>. Python attributes carry a leading
  underscore (\<open>_app_id\<close>, \<open>_app_code\<close>, \<open>_baseUrl\<close>, \<open>_timeout\<close>); an identifier cannot
  start with one here, so the fields are named without it. A credential is a string or
  Python's \<open>None\<close> (the constructor's default), hence \<open>string option\<close>; the timeout is an
  \<open>int\<close>, as the docstring of the constructor says.
\<close>

subsection \<open>Client state\<close>

record RoutingApi =
  app_id :: "string option"
  app_code :: "string option"
  baseUrl :: string
  timeout :: int

text \<open>
  \<^verbatim>\<open>
  def SetCredentials(self, app_id, app_code):
      self._app_id = app_id
      self._app_code = app_code
  \<close>
\<close>

definition SetCredentials :: "RoutingApi \<Rightarrow> string option \<Rightarrow> string option \<Rightarrow> RoutingApi" where
  "SetCredentials self a c = self\<lparr>app_id := a, app_code := c\<rparr>"

text \<open>
  \<^verbatim>\<open>
  def __init__(self, app_id=None, app_code=None, timeout=None):
      self.SetCredentials(app_id, app_code)
      self._baseUrl = 'https://route.cit.api.here.com/routing/7.2/calculateroute.json'
      if timeout:
          self._timeout = timeout
      else:
          self._timeout = 20
  \<close>
  The object is created with no attributes; the record starts from \<open>blank\<close>, whose fields
  are all overwritten by the body. The guard \<open>if timeout:\<close> takes Python's truth value of
  the argument: \<open>None\<close> and the integer \<open>0\<close> are false, every other integer is true.
\<close>

definition blank :: RoutingApi where
  "blank = \<lparr>app_id = None, app_code = None, baseUrl = [], timeout = 0\<rparr>"

definition RoutingApi_init :: "string option \<Rightarrow> string option \<Rightarrow> int option \<Rightarrow> RoutingApi" where
  "RoutingApi_init a c t =
     (let self = SetCredentials blank a c;
          self = self\<lparr>baseUrl := ''https://route.cit.api.here.com/routing/7.2/calculateroute.json''\<rparr>
      in case t of
           None \<Rightarrow> self\<lparr>timeout := 20\<rparr>
         | Some v \<Rightarrow> if v \<noteq> 0 then self\<lparr>timeout := v\<rparr> else self\<lparr>timeout := 20\<rparr>)"

subsection \<open>Exceptions and indexing\<close>

text \<open>
  The exceptions a call can end in. \<open>IndexError\<close> comes from reading \<open>waypoint[0]\<close> or
  \<open>waypoint[1]\<close> of a list that is too short, \<open>AttributeError\<close> from calling \<open>.get\<close> on a
  decoded document that is not a dict. \<open>TransportError\<close> and \<open>ParseError\<close> are the
  specification's names for a failure of the HTTP request and of the JSON decoder, which
  the client lets through.
\<close>

datatype py_error = IndexError | AttributeError | TransportError | ParseError

definition py_index :: "'a list \<Rightarrow> nat \<Rightarrow> py_error + 'a" where
  "py_index xs i = (if i < length xs then Inr (xs ! i) else Inl IndexError)"

text \<open>The two reads \<open>waypoint[0]\<close>, \<open>waypoint[1]\<close>, in the order the source makes them.\<close>

definition coordinates :: "'c list \<Rightarrow> py_error + ('c \<times> 'c)" where
  "coordinates waypoint =
     (case py_index waypoint 0 of
        Inl e \<Rightarrow> Inl e
      | Inr lat \<Rightarrow>
          (case py_index waypoint 1 of
             Inl e \<Rightarrow> Inl e
           | Inr lon \<Rightarrow> Inr (lat, lon)))"

subsection \<open>Decoded JSON\<close>

text \<open>
  What \<open>json.loads\<close> returns: \<open>None\<close>, a bool, an int, a float, a string, a list or a dict
  with string keys. A dict is an association list read with \<open>map_of\<close>. A float is carried
  as the real number it denotes; the client never computes with one.
\<close>

datatype json =
    JNull
  | JBool bool
  | JInt int
  | JFloat real
  | JStr string
  | JArr "json list"
  | JObj "(string \<times> json) list"

text \<open>\<open>d.get(k, default)\<close> on a dict; \<open>d.get(k)\<close> is \<open>dict_get d k JNull\<close>.\<close>

definition dict_get :: "(string \<times> json) list \<Rightarrow> string \<Rightarrow> json \<Rightarrow> json" where
  "dict_get d k dflt = (case map_of d k of None \<Rightarrow> dflt | Some v \<Rightarrow> v)"

subsection \<open>Result models\<close>

text \<open>
  Modelled from the spec: \<open>herepy.error.HEREError\<close> is not among the sources. The
  specification describes error types as typed wrappers carrying a message extracted from
  an error JSON payload, or a synthesized default naming the failing operation. The
  message is whatever the client passes to the constructor: a decoded JSON value.
\<close>

datatype HEREError = HEREError (message: json)

text \<open>
  Modelled from the spec: \<open>herepy.models.RoutingResponse\<close> and its constructor
  \<open>new_from_jsondict\<close> are not among the sources. The specification describes a response
  model as a typed container built by parsing a decoded JSON object into named fields,
  constructed exactly once and without failure; the success envelope carries the one
  top-level field \<open>response\<close>, which is the field the model holds.
\<close>

record RoutingResponse =
  response :: json

text \<open>
  Modelled from the spec: \<open>RoutingResponse.new_from_jsondict\<close> is not among the sources. It
  deserializes the decoded object into the response model, reading \<open>response\<close> the way a
  dict is read.
\<close>

definition new_from_jsondict :: "(string \<times> json) list \<Rightarrow> RoutingResponse" where
  "new_from_jsondict d = \<lparr>response = dict_get d ''response'' JNull\<rparr>"

text \<open>A call returns one of the two models (the error object is returned, not raised).\<close>

datatype outcome = Response RoutingResponse | Error HEREError

subsection \<open>URL builder\<close>

type_synonym params = "(string \<times> string option) list"

text \<open>
  Modelled from the spec: \<open>herepy.utils.Utils.BuildUrl\<close> is not among the sources. The
  specification (4.1): given a base URL string and a mapping of extra query parameters,
  produce a single URL with all parameters percent-encoded and appended in a stable
  order. Unreserved characters (letters, digits, \<open>-\<close>, \<open>_\<close>, \<open>.\<close>, \<open>~\<close>) stand for themselves,
  every other byte becomes \<open>%\<close> and two hexadecimal digits; the entries follow the base URL
  after \<open>?\<close>, as \<open>name=value\<close> joined by \<open>&\<close>, in the order of the mapping. The mapping of
  the specification holds strings; an entry whose value is \<open>None\<close> has nothing to encode and
  is left out.
\<close>

definition unreserved :: "char \<Rightarrow> bool" where
  "unreserved c \<longleftrightarrow>
     c \<in> set ''ABCDEFGHIJKLMNOPQRSTUVWXYZabcdefghijklmnopqrstuvwxyz0123456789-_.~''"

text \<open>
  Modelled from the spec: the pieces of \<open>Utils.BuildUrl\<close> (not among the sources) that
  percent-encode a character and a string.
\<close>

definition hex_digit :: "nat \<Rightarrow> char" where
  "hex_digit n = ''0123456789ABCDEF'' ! (n mod 16)"

definition percent_char :: "char \<Rightarrow> string" where
  "percent_char c =
     (if unreserved c then [c]
      else [CHR ''%'', hex_digit (of_char c div 16), hex_digit (of_char c)])"

definition percent_encode :: "string \<Rightarrow> string" where
  "percent_encode s = concat (map percent_char s)"

text \<open>
  Modelled from the spec: the pieces of \<open>Utils.BuildUrl\<close> (not among the sources) that turn
  the mapping into \<open>name=value\<close> items and join them.
\<close>

fun query_items :: "params \<Rightarrow> string list" where
  "query_items [] = []"
| "query_items ((k, None) # ps) = query_items ps"
| "query_items ((k, Some v) # ps) =
     (percent_encode k @ ''='' @ percent_encode v) # query_items ps"

fun join_with :: "string \<Rightarrow> string list \<Rightarrow> string" where
  "join_with sep [] = []"
| "join_with sep [x] = x"
| "join_with sep (x # y # ys) = x @ sep @ join_with sep (y # ys)"

text \<open>
  Modelled from the spec: \<open>Utils.BuildUrl(url, extra_params=data)\<close>, not among the sources:
  the base URL, \<open>?\<close>, and the encoded parameters in a stable order.
\<close>

definition BuildUrl :: "string \<Rightarrow> params \<Rightarrow> string" where
  "BuildUrl url extra_params = url @ ''?'' @ join_with ''&'' (query_items extra_params)"

subsection \<open>Dispatch\<close>

text \<open>
  \<^verbatim>\<open>
  def __get(self, data):
      url = Utils.BuildUrl(self._baseUrl, extra_params=data)
      response = requests.get(url, timeout=self._timeout)
      jsonData = json.loads(response.content.decode('utf8'))
      if jsonData.get('response') != None:
          return RoutingResponse.new_from_jsondict(jsonData)
      else:
          return HEREError(jsonData.get('details',
              'Error occured on ' + sys._getframe(1).f_code.co_name))
  \<close>
  The HTTP request and the decoding of its body are outside the client. Their joint
  outcome for a URL and a timeout is the parameter \<open>fetch\<close>: an exception, which \<open>__get\<close>
  lets through, or the decoded document. \<open>sys._getframe(1).f_code.co_name\<close> is the name of
  the method that called \<open>__get\<close>; it is the parameter \<open>caller\<close>, and each route operation
  passes its own name. A document that is not a dict has no \<open>get\<close>, so the first
  \<open>jsonData.get\<close> raises.
\<close>

definition RoutingApi_get ::
  "(string \<Rightarrow> int \<Rightarrow> py_error + json) \<Rightarrow> RoutingApi \<Rightarrow> string \<Rightarrow> params \<Rightarrow> py_error + outcome" where
  "RoutingApi_get fetch self caller data =
     (let url = BuildUrl (baseUrl self) data in
      case fetch url (timeout self) of
        Inl e \<Rightarrow> Inl e
      | Inr jsonData \<Rightarrow>
          (case jsonData of
             JObj d \<Rightarrow>
               if dict_get d ''response'' JNull \<noteq> JNull
               then Inr (Response (new_from_jsondict d))
               else Inr (Error (HEREError
                      (dict_get d ''details'' (JStr (''Error occured on '' @ caller)))))
           | _ \<Rightarrow> Inl AttributeError))"

text \<open>The two kinds of result a call can return.\<close>

fun yields_ResponseModel :: "py_error + outcome \<Rightarrow> bool" where
  "yields_ResponseModel (Inr (Response r)) = True"
| "yields_ResponseModel _ = False"

fun yields_APIError :: "py_error + outcome \<Rightarrow> bool" where
  "yields_APIError (Inr (Error e)) = True"
| "yields_APIError _ = False"

subsection \<open>Route modes\<close>

text \<open>
  \<^verbatim>\<open>
  def __prepare_mode_values(self, modes):
      mode_values = ""
      for m in modes:
          mode_values += m.__str__() + ';'
      mode_values = mode_values[:-1]
      return mode_values
  \<close>
  \<open>m.__str__()\<close> belongs to the enumeration, which is not among the sources; it is the
  parameter \<open>str_of\<close>. The loop is \<open>mode_loop\<close>, with the accumulator \<open>mode_values\<close>; the
  slice \<open>[:-1]\<close> drops the last character and leaves the empty string empty, as \<open>butlast\<close>
  does.
\<close>

fun mode_loop :: "('m \<Rightarrow> string) \<Rightarrow> 'm list \<Rightarrow> string \<Rightarrow> string" where
  "mode_loop str_of [] mode_values = mode_values"
| "mode_loop str_of (m # modes) mode_values =
     mode_loop str_of modes (mode_values @ str_of m @ '';'')"

definition prepare_mode_values :: "('m \<Rightarrow> string) \<Rightarrow> 'm list \<Rightarrow> string" where
  "prepare_mode_values str_of modes = butlast (mode_loop str_of modes [])"

text \<open>
  Modelled from the spec: \<open>herepy.here_enum.RouteMode\<close> is not among the sources. The
  members are the ones the routing client names in its default arguments. The
  specification gives the enumerations no behaviour beyond stringification, and the
  string forms of \<open>car\<close> and \<open>fastest\<close> as \<open>car\<close> and \<open>fastest\<close> (the default modes of the
  driving route give \<open>mode=car;fastest\<close>); each member's string form is its name.
\<close>

datatype RouteMode = car | fastest | pedestrian | publicTransport | truck

text \<open>
  Modelled from the spec: \<open>RouteMode.__str__\<close>, not among the sources; the string form of a
  member is its name.
\<close>

fun RouteMode_str :: "RouteMode \<Rightarrow> string" where
  "RouteMode_str car = ''car''"
| "RouteMode_str fastest = ''fastest''"
| "RouteMode_str pedestrian = ''pedestrian''"
| "RouteMode_str publicTransport = ''publicTransport''"
| "RouteMode_str truck = ''truck''"

subsection \<open>Route operations\<close>

text \<open>
  Each public method builds the dict \<open>data\<close> and hands it to \<open>__get\<close>:
  \<^verbatim>\<open>
  def CarRoute(self, waypoint_a, waypoint_b,
               modes=[RouteMode.car, RouteMode.fastest]):
      data = {'waypoint0': str.format('{0},{1}', waypoint_a[0], waypoint_a[1]),
              'waypoint1': str.format('{0},{1}', waypoint_b[0], waypoint_b[1]),
              'mode':  self.__prepare_mode_values(modes),
              'app_id': self._app_id,
              'app_code': self._app_code,
              'departure': 'now'}
      return self.__get(data)
  \<close>
  The model splits a method in two: \<open>CarRoute_data\<close> is the dict, as an association list
  in the order of the literal, or the \<open>IndexError\<close> of a waypoint with fewer than two
  elements; \<open>CarRoute\<close> is the whole call. A waypoint is a list of coordinates of any type
  \<open>'c\<close>. \<open>str.format\<close> puts each coordinate through the runtime's \<open>format(x, '')\<close>, which is
  the parameter \<open>fmt\<close> (the text of a float is the runtime's business, not the client's).
  \<open>combine_change\<close> is a bool, as the docstring says. A default argument is a constant of
  its own, \<open>CarRoute_modes\<close> and so on, to be passed when the caller gives no modes.
\<close>

definition CarRoute_data ::
  "('c \<Rightarrow> string) \<Rightarrow> ('m \<Rightarrow> string) \<Rightarrow> RoutingApi \<Rightarrow> 'c list \<Rightarrow> 'c list \<Rightarrow> 'm list
     \<Rightarrow> py_error + params" where
  "CarRoute_data fmt str_of self waypoint_a waypoint_b modes =
     (case coordinates waypoint_a of
        Inl e \<Rightarrow> Inl e
      | Inr (a0, a1) \<Rightarrow>
     (case coordinates waypoint_b of
        Inl e \<Rightarrow> Inl e
      | Inr (b0, b1) \<Rightarrow>
        Inr [(''waypoint0'', Some (fmt a0 @ '','' @ fmt a1)),
             (''waypoint1'', Some (fmt b0 @ '','' @ fmt b1)),
             (''mode'', Some (prepare_mode_values str_of modes)),
             (''app_id'', app_id self),
             (''app_code'', app_code self),
             (''departure'', Some ''now'')]))"

definition CarRoute ::
  "(string \<Rightarrow> int \<Rightarrow> py_error + json) \<Rightarrow> ('c \<Rightarrow> string) \<Rightarrow> ('m \<Rightarrow> string) \<Rightarrow> RoutingApi
     \<Rightarrow> 'c list \<Rightarrow> 'c list \<Rightarrow> 'm list \<Rightarrow> py_error + outcome" where
  "CarRoute fetch fmt str_of self waypoint_a waypoint_b modes =
     (case CarRoute_data fmt str_of self waypoint_a waypoint_b modes of
        Inl e \<Rightarrow> Inl e
      | Inr data \<Rightarrow> RoutingApi_get fetch self ''CarRoute'' data)"

definition CarRoute_modes :: "RouteMode list" where
  "CarRoute_modes = [car, fastest]"

definition PedastrianRoute_data ::
  "('c \<Rightarrow> string) \<Rightarrow> ('m \<Rightarrow> string) \<Rightarrow> RoutingApi \<Rightarrow> 'c list \<Rightarrow> 'c list \<Rightarrow> 'm list
     \<Rightarrow> py_error + params" where
  "PedastrianRoute_data fmt str_of self waypoint_a waypoint_b modes =
     (case coordinates waypoint_a of
        Inl e \<Rightarrow> Inl e
      | Inr (a0, a1) \<Rightarrow>
     (case coordinates waypoint_b of
        Inl e \<Rightarrow> Inl e
      | Inr (b0, b1) \<Rightarrow>
        Inr [(''waypoint0'', Some (fmt a0 @ '','' @ fmt a1)),
             (''waypoint1'', Some (fmt b0 @ '','' @ fmt b1)),
             (''mode'', Some (prepare_mode_values str_of modes)),
             (''app_id'', app_id self),
             (''app_code'', app_code self)]))"

definition PedastrianRoute ::
  "(string \<Rightarrow> int \<Rightarrow> py_error + json) \<Rightarrow> ('c \<Rightarrow> string) \<Rightarrow> ('m \<Rightarrow> string) \<Rightarrow> RoutingApi
     \<Rightarrow> 'c list \<Rightarrow> 'c list \<Rightarrow> 'm list \<Rightarrow> py_error + outcome" where
  "PedastrianRoute fetch fmt str_of self waypoint_a waypoint_b modes =
     (case PedastrianRoute_data fmt str_of self waypoint_a waypoint_b modes of
        Inl e \<Rightarrow> Inl e
      | Inr data \<Rightarrow> RoutingApi_get fetch self ''PedastrianRoute'' data)"

definition PedastrianRoute_modes :: "RouteMode list" where
  "PedastrianRoute_modes = [pedestrian, fastest]"

definition IntermediateRoute_data ::
  "('c \<Rightarrow> string) \<Rightarrow> ('m \<Rightarrow> string) \<Rightarrow> RoutingApi \<Rightarrow> 'c list \<Rightarrow> 'c list \<Rightarrow> 'c list \<Rightarrow> 'm list
     \<Rightarrow> py_error + params" where
  "IntermediateRoute_data fmt str_of self waypoint_a waypoint_b waypoint_c modes =
     (case coordinates waypoint_a of
        Inl e \<Rightarrow> Inl e
      | Inr (a0, a1) \<Rightarrow>
     (case coordinates waypoint_b of
        Inl e \<Rightarrow> Inl e
      | Inr (b0, b1) \<Rightarrow>
     (case coordinates waypoint_c of
        Inl e \<Rightarrow> Inl e
      | Inr (c0, c1) \<Rightarrow>
        Inr [(''waypoint0'', Some (fmt a0 @ '','' @ fmt a1)),
             (''waypoint1'', Some (fmt b0 @ '','' @ fmt b1)),
             (''waypoint2'', Some (fmt c0 @ '','' @ fmt c1)),
             (''mode'', Some (prepare_mode_values str_of modes)),
             (''app_id'', app_id self),
             (''app_code'', app_code self)])))"

definition IntermediateRoute ::
  "(string \<Rightarrow> int \<Rightarrow> py_error + json) \<Rightarrow> ('c \<Rightarrow> string) \<Rightarrow> ('m \<Rightarrow> string) \<Rightarrow> RoutingApi
     \<Rightarrow> 'c list \<Rightarrow> 'c list \<Rightarrow> 'c list \<Rightarrow> 'm list \<Rightarrow> py_error + outcome" where
  "IntermediateRoute fetch fmt str_of self waypoint_a waypoint_b waypoint_c modes =
     (case IntermediateRoute_data fmt str_of self waypoint_a waypoint_b waypoint_c modes of
        Inl e \<Rightarrow> Inl e
      | Inr data \<Rightarrow> RoutingApi_get fetch self ''IntermediateRoute'' data)"

definition IntermediateRoute_modes :: "RouteMode list" where
  "IntermediateRoute_modes = [car, fastest]"

definition PublicTransport_data ::
  "('c \<Rightarrow> string) \<Rightarrow> ('m \<Rightarrow> string) \<Rightarrow> RoutingApi \<Rightarrow> 'c list \<Rightarrow> 'c list \<Rightarrow> bool \<Rightarrow> 'm list
     \<Rightarrow> py_error + params" where
  "PublicTransport_data fmt str_of self waypoint_a waypoint_b combine_change modes =
     (case coordinates waypoint_a of
        Inl e \<Rightarrow> Inl e
      | Inr (a0, a1) \<Rightarrow>
     (case coordinates waypoint_b of
        Inl e \<Rightarrow> Inl e
      | Inr (b0, b1) \<Rightarrow>
        Inr [(''waypoint0'', Some (fmt a0 @ '','' @ fmt a1)),
             (''waypoint1'', Some (fmt b0 @ '','' @ fmt b1)),
             (''mode'', Some (prepare_mode_values str_of modes)),
             (''combine_change'', Some (if combine_change then ''true'' else ''false'')),
             (''app_id'', app_id self),
             (''app_code'', app_code self)]))"

definition PublicTransport ::
  "(string \<Rightarrow> int \<Rightarrow> py_error + json) \<Rightarrow> ('c \<Rightarrow> string) \<Rightarrow> ('m \<Rightarrow> string) \<Rightarrow> RoutingApi
     \<Rightarrow> 'c list \<Rightarrow> 'c list \<Rightarrow> bool \<Rightarrow> 'm list \<Rightarrow> py_error + outcome" where
  "PublicTransport fetch fmt str_of self waypoint_a waypoint_b combine_change modes =
     (case PublicTransport_data fmt str_of self waypoint_a waypoint_b combine_change modes of
        Inl e \<Rightarrow> Inl e
      | Inr data \<Rightarrow> RoutingApi_get fetch self ''PublicTransport'' data)"

definition PublicTransport_modes :: "RouteMode list" where
  "PublicTransport_modes = [publicTransport, fastest]"

definition LocationNearMotorway_data ::
  "('c \<Rightarrow> string) \<Rightarrow> ('m \<Rightarrow> string) \<Rightarrow> RoutingApi \<Rightarrow> 'c list \<Rightarrow> 'c list \<Rightarrow> 'm list
     \<Rightarrow> py_error + params" where
  "LocationNearMotorway_data fmt str_of self waypoint_a waypoint_b modes =
     (case coordinates waypoint_a of
        Inl e \<Rightarrow> Inl e
      | Inr (a0, a1) \<Rightarrow>
     (case coordinates waypoint_b of
        Inl e \<Rightarrow> Inl e
      | Inr (b0, b1) \<Rightarrow>
        Inr [(''waypoint0'', Some (fmt a0 @ '','' @ fmt a1)),
             (''waypoint1'', Some (''street!!'' @ fmt b0 @ '','' @ fmt b1)),
             (''mode'', Some (prepare_mode_values str_of modes)),
             (''app_id'', app_id self),
             (''app_code'', app_code self)]))"

definition LocationNearMotorway ::
  "(string \<Rightarrow> int \<Rightarrow> py_error + json) \<Rightarrow> ('c \<Rightarrow> string) \<Rightarrow> ('m \<Rightarrow> string) \<Rightarrow> RoutingApi
     \<Rightarrow> 'c list \<Rightarrow> 'c list \<Rightarrow> 'm list \<Rightarrow> py_error + outcome" where
  "LocationNearMotorway fetch fmt str_of self waypoint_a waypoint_b modes =
     (case LocationNearMotorway_data fmt str_of self waypoint_a waypoint_b modes of
        Inl e \<Rightarrow> Inl e
      | Inr data \<Rightarrow> RoutingApi_get fetch self ''LocationNearMotorway'' data)"

definition LocationNearMotorway_modes :: "RouteMode list" where
  "LocationNearMotorway_modes = [car, fastest]"

definition TruckRoute_data ::
  "('c \<Rightarrow> string) \<Rightarrow> ('m \<Rightarrow> string) \<Rightarrow> RoutingApi \<Rightarrow> 'c list \<Rightarrow> 'c list \<Rightarrow> 'm list
     \<Rightarrow> py_error + params" where
  "TruckRoute_data fmt str_of self waypoint_a waypoint_b modes =
     (case coordinates waypoint_a of
        Inl e \<Rightarrow> Inl e
      | Inr (a0, a1) \<Rightarrow>
     (case coordinates waypoint_b of
        Inl e \<Rightarrow> Inl e
      | Inr (b0, b1) \<Rightarrow>
        Inr [(''waypoint0'', Some (fmt a0 @ '','' @ fmt a1)),
             (''waypoint1'', Some (fmt b0 @ '','' @ fmt b1)),
             (''mode'', Some (prepare_mode_values str_of modes)),
             (''app_id'', app_id self),
             (''app_code'', app_code self)]))"

definition TruckRoute ::
  "(string \<Rightarrow> int \<Rightarrow> py_error + json) \<Rightarrow> ('c \<Rightarrow> string) \<Rightarrow> ('m \<Rightarrow> string) \<Rightarrow> RoutingApi
     \<Rightarrow> 'c list \<Rightarrow> 'c list \<Rightarrow> 'm list \<Rightarrow> py_error + outcome" where
  "TruckRoute fetch fmt str_of self waypoint_a waypoint_b modes =
     (case TruckRoute_data fmt str_of self waypoint_a waypoint_b modes of
        Inl e \<Rightarrow> Inl e
      | Inr data \<Rightarrow> RoutingApi_get fetch self ''TruckRoute'' data)"

definition TruckRoute_modes :: "RouteMode list" where
  "TruckRoute_modes = [truck, fastest]"

subsection \<open>Reading an assembled mapping\<close>

text \<open>
  \<open>exactly_one_entry r k v\<close>: the operation assembled a mapping, the mapping has one entry
  under the key \<open>k\<close> and no more, and its value is \<open>v\<close>. \<open>url_contains s self r\<close>: the
  operation assembled a mapping, and the URL built from the client's base URL and that
  mapping has \<open>s\<close> as a contiguous substring.
\<close>

fun exactly_one_entry :: "py_error + params \<Rightarrow> string \<Rightarrow> string option \<Rightarrow> bool" where
  "exactly_one_entry (Inl e) k v = False"
| "exactly_one_entry (Inr data) k v =
     (length (filter (\<lambda>entry. fst entry = k) data) = 1 \<and> map_of data k = Some v)"

fun url_contains :: "string \<Rightarrow> RoutingApi \<Rightarrow> py_error + params \<Rightarrow> bool" where
  "url_contains s self (Inl e) = False"
| "url_contains s self (Inr data) = sublist s (BuildUrl (baseUrl self) data)"

definition injects_credentials :: "RoutingApi \<Rightarrow> py_error + params \<Rightarrow> bool" where
  "injects_credentials self r \<longleftrightarrow>
     exactly_one_entry r ''app_id'' (app_id self)
     \<and> exactly_one_entry r ''app_code'' (app_code self)"

definition url_has_credentials :: "RoutingApi \<Rightarrow> py_error + params \<Rightarrow> bool" where
  "url_has_credentials self r \<longleftrightarrow>
     url_contains ''app_id=app_id'' self r \<and> url_contains ''app_code=app_code'' self r"

subsection \<open>Stub transports\<close>

text \<open>
  Two fixed behaviours of the HTTP layer, for running the client on concrete inputs:
  \<open>canned doc\<close> answers every request with a body that decodes to \<open>doc\<close>, and
  \<open>no_connection\<close> fails every request.
\<close>

definition canned :: "json \<Rightarrow> string \<Rightarrow> int \<Rightarrow> py_error + json" where
  "canned doc url t = Inr doc"

definition no_connection :: "string \<Rightarrow> int \<Rightarrow> py_error + json" where
  "no_connection url t = Inl TransportError"

text \<open>The client of the test suite, \<open>RoutingApi('app_id', 'app_code')\<close>.\<close>

definition test_client :: RoutingApi where
  "test_client = RoutingApi_init (Some ''app_id'') (Some ''app_code'') None"

text \<open>
  The dict that \<open>CarRoute([52.5, 13.4], [52.4, 13.5])\<close> of the test client hands to
  \<open>__get\<close>, and whether the HTTP layer delivered a document that decoded to a dict.
\<close>

definition scenario_data :: params where
  "scenario_data =
     [(''waypoint0'', Some ''52.5,13.4''),
      (''waypoint1'', Some ''52.4,13.5''),
      (''mode'', Some ''car;fastest''),
      (''app_id'', Some ''app_id''),
      (''app_code'', Some ''app_code''),
      (''departure'', Some ''now'')]"

fun delivers_object :: "py_error + json \<Rightarrow> bool" where
  "delivers_object (Inr (JObj d)) = True"
| "delivers_object _ = False"

section \<open>Auxiliary facts\<close>

subsection \<open>Waypoints with two coordinates\<close>

lemma coordinates_ok:
  "2 \<le> length w \<Longrightarrow> coordinates w = Inr (w ! 0, w ! 1)"
  by (cases w) (auto simp: coordinates_def py_index_def)

lemma coordinates_short:
  "length w < 2 \<Longrightarrow> coordinates w = Inl IndexError"
  by (cases w) (auto simp: coordinates_def py_index_def)

text \<open>With waypoints long enough, each operation assembles the dict of its literal.\<close>

lemma CarRoute_data_ok:
  "2 \<le> length wa \<Longrightarrow> 2 \<le> length wb \<Longrightarrow>
   CarRoute_data fmt str_of self wa wb modes =
     Inr [(''waypoint0'', Some (fmt (wa ! 0) @ '','' @ fmt (wa ! 1))),
          (''waypoint1'', Some (fmt (wb ! 0) @ '','' @ fmt (wb ! 1))),
          (''mode'', Some (prepare_mode_values str_of modes)),
          (''app_id'', app_id self),
          (''app_code'', app_code self),
          (''departure'', Some ''now'')]"
  by (simp add: CarRoute_data_def coordinates_ok)

lemma PedastrianRoute_data_ok:
  "2 \<le> length wa \<Longrightarrow> 2 \<le> length wb \<Longrightarrow>
   PedastrianRoute_data fmt str_of self wa wb modes =
     Inr [(''waypoint0'', Some (fmt (wa ! 0) @ '','' @ fmt (wa ! 1))),
          (''waypoint1'', Some (fmt (wb ! 0) @ '','' @ fmt (wb ! 1))),
          (''mode'', Some (prepare_mode_values str_of modes)),
          (''app_id'', app_id self),
          (''app_code'', app_code self)]"
  by (simp add: PedastrianRoute_data_def coordinates_ok)

lemma IntermediateRoute_data_ok:
  "2 \<le> length wa \<Longrightarrow> 2 \<le> length wb \<Longrightarrow> 2 \<le> length wc \<Longrightarrow>
   IntermediateRoute_data fmt str_of self wa wb wc modes =
     Inr [(''waypoint0'', Some (fmt (wa ! 0) @ '','' @ fmt (wa ! 1))),
          (''waypoint1'', Some (fmt (wb ! 0) @ '','' @ fmt (wb ! 1))),
          (''waypoint2'', Some (fmt (wc ! 0) @ '','' @ fmt (wc ! 1))),
          (''mode'', Some (prepare_mode_values str_of modes)),
          (''app_id'', app_id self),
          (''app_code'', app_code self)]"
  by (simp add: IntermediateRoute_data_def coordinates_ok)

lemma PublicTransport_data_ok:
  "2 \<le> length wa \<Longrightarrow> 2 \<le> length wb \<Longrightarrow>
   PublicTransport_data fmt str_of self wa wb combine_change modes =
     Inr [(''waypoint0'', Some (fmt (wa ! 0) @ '','' @ fmt (wa ! 1))),
          (''waypoint1'', Some (fmt (wb ! 0) @ '','' @ fmt (wb ! 1))),
          (''mode'', Some (prepare_mode_values str_of modes)),
          (''combine_change'', Some (if combine_change then ''true'' else ''false'')),
          (''app_id'', app_id self),
          (''app_code'', app_code self)]"
  by (simp add: PublicTransport_data_def coordinates_ok)

lemma LocationNearMotorway_data_ok:
  "2 \<le> length wa \<Longrightarrow> 2 \<le> length wb \<Longrightarrow>
   LocationNearMotorway_data fmt str_of self wa wb modes =
     Inr [(''waypoint0'', Some (fmt (wa ! 0) @ '','' @ fmt (wa ! 1))),
          (''waypoint1'', Some (''street!!'' @ fmt (wb ! 0) @ '','' @ fmt (wb ! 1))),
          (''mode'', Some (prepare_mode_values str_of modes)),
          (''app_id'', app_id self),
          (''app_code'', app_code self)]"
  by (simp add: LocationNearMotorway_data_def coordinates_ok)

lemma TruckRoute_data_ok:
  "2 \<le> length wa \<Longrightarrow> 2 \<le> length wb \<Longrightarrow>
   TruckRoute_data fmt str_of self wa wb modes =
     Inr [(''waypoint0'', Some (fmt (wa ! 0) @ '','' @ fmt (wa ! 1))),
          (''waypoint1'', Some (fmt (wb ! 0) @ '','' @ fmt (wb ! 1))),
          (''mode'', Some (prepare_mode_values str_of modes)),
          (''app_id'', app_id self),
          (''app_code'', app_code self)]"
  by (simp add: TruckRoute_data_def coordinates_ok)

subsection \<open>The mode loop\<close>

lemma mode_loop_acc:
  "mode_loop str_of modes acc = acc @ concat (map (\<lambda>m. str_of m @ '';'') modes)"
  by (induction modes arbitrary: acc) auto

lemma butlast_joined:
  "butlast (a @ '';'' @ concat (map (\<lambda>m. str_of m @ '';'') ms))
     = a @ concat (map (\<lambda>m. '';'' @ str_of m) ms)"
  by (induction ms arbitrary: a) (auto simp: butlast_append)

lemma prepare_mode_values_Cons:
  "prepare_mode_values str_of (m # ms) = str_of m @ concat (map (\<lambda>x. '';'' @ str_of x) ms)"
  using butlast_joined [of "str_of m" str_of ms]
  by (simp add: prepare_mode_values_def mode_loop_acc)

subsection \<open>Substrings of a built URL\<close>

lemma percent_encode_app_id: "percent_encode ''app_id'' = ''app_id''"
  by (simp add: percent_encode_def percent_char_def unreserved_def)

lemma percent_encode_app_code: "percent_encode ''app_code'' = ''app_code''"
  by (simp add: percent_encode_def percent_char_def unreserved_def)

lemma sublist_after: "sublist x zs \<Longrightarrow> sublist x (ys @ zs)"
  by (simp add: sublist_append)

lemma sublist_join_with: "x \<in> set xs \<Longrightarrow> sublist x (join_with sep xs)"
proof (induction sep xs rule: join_with.induct)
  case (1 sep)
  then show ?case by simp
next
  case (2 sep y)
  then show ?case by simp
next
  case (3 sep y z zs)
  show ?case
  proof (cases "x = y")
    case True
    then show ?thesis by simp
  next
    case False
    with 3 have "sublist x (join_with sep (z # zs))" by simp
    then have "sublist x ((y @ sep) @ join_with sep (z # zs))"
      by (rule sublist_after)
    then show ?thesis by simp
  qed
qed

lemma query_items_member:
  "map_of ps k = Some (Some v)
   \<Longrightarrow> percent_encode k @ ''='' @ percent_encode v \<in> set (query_items ps)"
  by (induction ps rule: query_items.induct) (auto split: if_splits)

lemma BuildUrl_contains:
  assumes "map_of ps k = Some (Some v)"
  shows "sublist (percent_encode k @ ''='' @ percent_encode v) (BuildUrl url ps)"
proof -
  have "sublist (percent_encode k @ ''='' @ percent_encode v)
          (join_with ''&'' (query_items ps))"
    using assms by (intro sublist_join_with query_items_member)
  then have "sublist (percent_encode k @ ''='' @ percent_encode v)
               ((url @ ''?'') @ join_with ''&'' (query_items ps))"
    by (rule sublist_after)
  then show ?thesis by (simp add: BuildUrl_def)
qed

lemma url_contains_app_id:
  "map_of data ''app_id'' = Some (Some ''app_id'')
   \<Longrightarrow> url_contains ''app_id=app_id'' self (Inr data)"
  using BuildUrl_contains [of data "''app_id''" "''app_id''" "baseUrl self"]
  by (simp add: percent_encode_app_id)

lemma url_contains_app_code:
  "map_of data ''app_code'' = Some (Some ''app_code'')
   \<Longrightarrow> url_contains ''app_code=app_code'' self (Inr data)"
  using BuildUrl_contains [of data "''app_code''" "''app_code''" "baseUrl self"]
  by (simp add: percent_encode_app_code)

subsection \<open>The constructed client and the default modes of the driving route\<close>

lemma init_fields:
  "baseUrl (RoutingApi_init i c None)
     = ''https://route.cit.api.here.com/routing/7.2/calculateroute.json''"
  "timeout (RoutingApi_init i c None) = 20"
  "app_id (RoutingApi_init i c None) = i"
  "app_code (RoutingApi_init i c None) = c"
  by (simp_all add: RoutingApi_init_def SetCredentials_def blank_def)

lemma prepare_default: "prepare_mode_values RouteMode_str CarRoute_modes = ''car;fastest''"
  by (simp add: CarRoute_modes_def prepare_mode_values_Cons)

subsection \<open>The two branches of the dispatch\<close>

lemma RoutingApi_get_object:
  "fetch (BuildUrl (baseUrl self) data) (timeout self) = Inr (JObj d) \<Longrightarrow>
   RoutingApi_get fetch self caller data =
     (if dict_get d ''response'' JNull \<noteq> JNull
      then Inr (Response (new_from_jsondict d))
      else Inr (Error (HEREError (dict_get d ''details'' (JStr (''Error occured on '' @ caller))))))"
  by (simp add: RoutingApi_get_def)

lemma RoutingApi_get_no_object:
  "\<not> delivers_object (fetch (BuildUrl (baseUrl self) data) (timeout self)) \<Longrightarrow>
   \<exists>e. RoutingApi_get fetch self caller data = Inl e"
  by (cases "fetch (BuildUrl (baseUrl self) data) (timeout self)")
     (auto simp: RoutingApi_get_def split: json.splits)

section \<open>Properties\<close>

subsection \<open>Construction and credentials\<close>

text \<open>
  C9 (as the specification states it, refuted): the stored timeout does not equal every
  supplied value. A client constructed with timeout \<open>0\<close> stores \<open>20\<close>, because the guard
  \<open>if timeout:\<close> tests the truth value of the argument, not whether it was given.
\<close>

theorem timeout_zero_not_stored:
  "timeout (RoutingApi_init (Some ''app_id'') (Some ''app_code'') (Some 0)) \<noteq> 0"
  by (simp add: RoutingApi_init_def SetCredentials_def blank_def)

text \<open>
  C9 (amended): the timeout is \<open>20\<close> when none is given and when \<open>0\<close> is given; every
  non-zero timeout supplied at construction is stored as it is.
\<close>

theorem timeout_default_and_override:
  "timeout (RoutingApi_init a c None) = 20
   \<and> timeout (RoutingApi_init a c (Some 0)) = 20
   \<and> (t \<noteq> 0 \<longrightarrow> timeout (RoutingApi_init a c (Some t)) = t)"
  by (simp add: RoutingApi_init_def SetCredentials_def blank_def)

theorem timeout_default_and_override_witness:
  "(5::int) \<noteq> 0 \<and> timeout (RoutingApi_init None None (Some 5)) = 5
   \<and> timeout (RoutingApi_init None None None) = 20"
  using timeout_default_and_override [of None None 5] by simp

text \<open>
  C10: the credentials setter stores the two credentials it is given and leaves the base
  URL and the timeout of the client as they were.
\<close>

theorem SetCredentials_frame:
  "app_id (SetCredentials self a c) = a
   \<and> app_code (SetCredentials self a c) = c
   \<and> baseUrl (SetCredentials self a c) = baseUrl self
   \<and> timeout (SetCredentials self a c) = timeout self"
  by (simp add: SetCredentials_def)

subsection \<open>Assembled parameters\<close>

text \<open>
  C1 (as the specification states it, refuted): not every route operation formats
  \<open>waypoint1\<close> as latitude, comma, longitude. \<open>LocationNearMotorway\<close> builds it with the
  format string \<open>'street!!{0},{1}'\<close>: for the waypoints \<open>('52.5', '13.4')\<close> and
  \<open>('52.4', '13.5')\<close> its one \<open>waypoint1\<close> entry is \<open>street!!52.4,13.5\<close>, not \<open>52.4,13.5\<close>.
\<close>

theorem LocationNearMotorway_waypoint1_prefixed:
  "exactly_one_entry
     (LocationNearMotorway_data id RouteMode_str test_client
        [''52.5'', ''13.4''] [''52.4'', ''13.5''] LocationNearMotorway_modes)
     ''waypoint1'' (Some ''street!!52.4,13.5'')
   \<and> \<not> exactly_one_entry
     (LocationNearMotorway_data id RouteMode_str test_client
        [''52.5'', ''13.4''] [''52.4'', ''13.5''] LocationNearMotorway_modes)
     ''waypoint1'' (Some ''52.4,13.5'')"
  by (simp add: LocationNearMotorway_data_ok)

text \<open>
  C1 (amended): given coordinate-pair waypoints, every route operation assembles a mapping
  with exactly one \<open>waypoint0\<close> entry and exactly one \<open>waypoint1\<close> entry. \<open>waypoint0\<close> is
  always the latitude's text, a comma and the longitude's text, with nothing else. So is
  \<open>waypoint1\<close> for \<open>CarRoute\<close>, \<open>PedastrianRoute\<close>, \<open>IntermediateRoute\<close>, \<open>PublicTransport\<close> and
  \<open>TruckRoute\<close>; for \<open>LocationNearMotorway\<close> it is that text after the prefix \<open>street!!\<close>.
\<close>

theorem waypoint_entries:
  "exactly_one_entry (CarRoute_data fmt str_of self [lat_a, lon_a] [lat_b, lon_b] modes)
     ''waypoint0'' (Some (fmt lat_a @ '','' @ fmt lon_a))
   \<and> exactly_one_entry (CarRoute_data fmt str_of self [lat_a, lon_a] [lat_b, lon_b] modes)
     ''waypoint1'' (Some (fmt lat_b @ '','' @ fmt lon_b))
   \<and> exactly_one_entry (PedastrianRoute_data fmt str_of self [lat_a, lon_a] [lat_b, lon_b] modes)
     ''waypoint0'' (Some (fmt lat_a @ '','' @ fmt lon_a))
   \<and> exactly_one_entry (PedastrianRoute_data fmt str_of self [lat_a, lon_a] [lat_b, lon_b] modes)
     ''waypoint1'' (Some (fmt lat_b @ '','' @ fmt lon_b))
   \<and> exactly_one_entry
       (IntermediateRoute_data fmt str_of self [lat_a, lon_a] [lat_b, lon_b] [lat_c, lon_c] modes)
     ''waypoint0'' (Some (fmt lat_a @ '','' @ fmt lon_a))
   \<and> exactly_one_entry
       (IntermediateRoute_data fmt str_of self [lat_a, lon_a] [lat_b, lon_b] [lat_c, lon_c] modes)
     ''waypoint1'' (Some (fmt lat_b @ '','' @ fmt lon_b))
   \<and> exactly_one_entry
       (PublicTransport_data fmt str_of self [lat_a, lon_a] [lat_b, lon_b] combine_change modes)
     ''waypoint0'' (Some (fmt lat_a @ '','' @ fmt lon_a))
   \<and> exactly_one_entry
       (PublicTransport_data fmt str_of self [lat_a, lon_a] [lat_b, lon_b] combine_change modes)
     ''waypoint1'' (Some (fmt lat_b @ '','' @ fmt lon_b))
   \<and> exactly_one_entry (TruckRoute_data fmt str_of self [lat_a, lon_a] [lat_b, lon_b] modes)
     ''waypoint0'' (Some (fmt lat_a @ '','' @ fmt lon_a))
   \<and> exactly_one_entry (TruckRoute_data fmt str_of self [lat_a, lon_a] [lat_b, lon_b] modes)
     ''waypoint1'' (Some (fmt lat_b @ '','' @ fmt lon_b))
   \<and> exactly_one_entry
       (LocationNearMotorway_data fmt str_of self [lat_a, lon_a] [lat_b, lon_b] modes)
     ''waypoint0'' (Some (fmt lat_a @ '','' @ fmt lon_a))
   \<and> exactly_one_entry
       (LocationNearMotorway_data fmt str_of self [lat_a, lon_a] [lat_b, lon_b] modes)
     ''waypoint1'' (Some (''street!!'' @ fmt lat_b @ '','' @ fmt lon_b))"
  by (simp add: CarRoute_data_ok PedastrianRoute_data_ok IntermediateRoute_data_ok
      PublicTransport_data_ok TruckRoute_data_ok LocationNearMotorway_data_ok)

text \<open>
  C4: for a non-empty sequence of modes, \<open>__prepare_mode_values\<close> returns the string form
  of the first mode followed, for each further mode in order, by \<open>;\<close> and its string
  form: nothing before the first and nothing after the last. When no string form is empty
  or contains \<open>;\<close>, as for the route modes, the result neither begins nor ends with \<open>;\<close>.
\<close>

theorem mode_values_joined:
  "prepare_mode_values str_of (m # ms)
     = str_of m @ concat (map (\<lambda>x. '';'' @ str_of x) ms)
   \<and> ((\<forall>x \<in> set (m # ms). str_of x \<noteq> [] \<and> CHR '';'' \<notin> set (str_of x))
        \<longrightarrow> prepare_mode_values str_of (m # ms) \<noteq> []
          \<and> hd (prepare_mode_values str_of (m # ms)) \<noteq> CHR '';''
          \<and> last (prepare_mode_values str_of (m # ms)) \<noteq> CHR '';'')"
proof (intro conjI impI)
  show eq: "prepare_mode_values str_of (m # ms)
     = str_of m @ concat (map (\<lambda>x. '';'' @ str_of x) ms)"
    by (rule prepare_mode_values_Cons)
  assume ok: "\<forall>x \<in> set (m # ms). str_of x \<noteq> [] \<and> CHR '';'' \<notin> set (str_of x)"
  then have m: "str_of m \<noteq> []" "CHR '';'' \<notin> set (str_of m)" by simp_all
  show "prepare_mode_values str_of (m # ms) \<noteq> []"
    using m by (simp add: eq)
  show "hd (prepare_mode_values str_of (m # ms)) \<noteq> CHR '';''"
    using m by (cases "str_of m") (auto simp: eq)
  show "last (prepare_mode_values str_of (m # ms)) \<noteq> CHR '';''"
  proof (cases ms rule: rev_cases)
    case Nil
    then show ?thesis using m by (auto simp: prepare_mode_values_Cons dest: last_in_set)
  next
    case (snoc ys y)
    with ok have y: "str_of y \<noteq> []" "CHR '';'' \<notin> set (str_of y)" by simp_all
    have "last (prepare_mode_values str_of (m # ms)) = last (str_of y)"
      using y snoc by (simp add: prepare_mode_values_Cons)
    then show ?thesis using y by (auto dest: last_in_set)
  qed
qed

theorem mode_values_joined_witness:
  "id ''car'' \<noteq> [] \<and> CHR '';'' \<notin> set (id ''car'')
   \<and> id ''fastest'' \<noteq> [] \<and> CHR '';'' \<notin> set (id ''fastest'')
   \<and> prepare_mode_values id [''car'', ''fastest''] = ''car;fastest''
   \<and> hd (prepare_mode_values id [''car'', ''fastest'']) \<noteq> CHR '';''
   \<and> last (prepare_mode_values id [''car'', ''fastest'']) \<noteq> CHR '';''"
  using mode_values_joined [of id "''car''" "[''fastest'']"] by simp

subsection \<open>Dispatch on the envelope\<close>

text \<open>
  C2 (as the specification states it, refuted): a document that contains the top-level
  field \<open>response\<close> does not always give a response model. The guard is
  \<open>jsonData.get('response') != None\<close>, so the document \<open>{"response": null}\<close> takes the error
  branch: the call returns an \<open>HEREError\<close>.
\<close>

theorem null_response_is_error:
  "RoutingApi_get (canned (JObj [(''response'', JNull)])) test_client ''CarRoute'' scenario_data
     = Inr (Error (HEREError (JStr ''Error occured on CarRoute'')))"
  by (simp add: RoutingApi_get_def canned_def dict_get_def)

text \<open>
  C2 (amended): when the decoded document is a JSON object whose top-level \<open>response\<close>
  field is present and not null, the dispatch routine returns a response model built from
  that document, holding the value of the field; it neither raises nor returns an error.
\<close>

theorem success_envelope_returns_model:
  assumes "fetch (BuildUrl (baseUrl self) data) (timeout self) = Inr (JObj d)"
    and "map_of d ''response'' = Some v"
    and "v \<noteq> JNull"
  shows "RoutingApi_get fetch self caller data = Inr (Response (new_from_jsondict d))
         \<and> response (new_from_jsondict d) = v"
  using assms by (simp add: RoutingApi_get_object dict_get_def new_from_jsondict_def)

theorem success_envelope_returns_model_witness:
  "canned (JObj [(''response'', JObj [(''route'', JArr [])])])
       (BuildUrl (baseUrl test_client) scenario_data) (timeout test_client)
     = Inr (JObj [(''response'', JObj [(''route'', JArr [])])])
   \<and> map_of [(''response'', JObj [(''route'', JArr [])])] ''response''
     = Some (JObj [(''route'', JArr [])])
   \<and> JObj [(''route'', JArr [])] \<noteq> JNull
   \<and> RoutingApi_get (canned (JObj [(''response'', JObj [(''route'', JArr [])])]))
         test_client ''CarRoute'' scenario_data
     = Inr (Response \<lparr>response = JObj [(''route'', JArr [])]\<rparr>)"
  using success_envelope_returns_model
    [of "canned (JObj [(''response'', JObj [(''route'', JArr [])])])" test_client scenario_data
        "[(''response'', JObj [(''route'', JArr [])])]" "JObj [(''route'', JArr [])]" "''CarRoute''"]
  by (simp add: canned_def new_from_jsondict_def dict_get_def)

text \<open>
  C3 (as the specification states it, refuted): a decoded document without the success
  field does not always give an \<open>HEREError\<close>. The JSON array \<open>[]\<close> decodes to a list, which
  has no \<open>get\<close>: the call ends in an \<open>AttributeError\<close>.
\<close>

theorem non_object_document_raises:
  "RoutingApi_get (canned (JArr [])) test_client ''CarRoute'' scenario_data = Inl AttributeError"
  by (simp add: RoutingApi_get_def canned_def)

text \<open>
  C3 (amended): when the decoded document is a JSON object that lacks the top-level
  \<open>response\<close> field, the dispatch routine returns an \<open>HEREError\<close>. Its message is the value
  of the \<open>details\<close> field when that field is present, and otherwise the text
  \<open>Error occured on\<close> followed by the name of the calling operation.
\<close>

theorem error_envelope_returns_HEREError:
  assumes "fetch (BuildUrl (baseUrl self) data) (timeout self) = Inr (JObj d)"
    and "map_of d ''response'' = None"
  shows "(map_of d ''details'' = Some m
            \<longrightarrow> RoutingApi_get fetch self caller data = Inr (Error (HEREError m)))
         \<and> (map_of d ''details'' = None
            \<longrightarrow> RoutingApi_get fetch self caller data
                  = Inr (Error (HEREError (JStr (''Error occured on '' @ caller)))))"
  using assms by (simp add: RoutingApi_get_object dict_get_def)

theorem error_envelope_returns_HEREError_witness:
  "canned (JObj [(''details'', JStr ''Invalid credentials'')])
       (BuildUrl (baseUrl test_client) scenario_data) (timeout test_client)
     = Inr (JObj [(''details'', JStr ''Invalid credentials'')])
   \<and> map_of [(''details'', JStr ''Invalid credentials'')] ''response'' = None
   \<and> map_of [(''details'', JStr ''Invalid credentials'')] ''details''
     = Some (JStr ''Invalid credentials'')
   \<and> RoutingApi_get (canned (JObj [(''details'', JStr ''Invalid credentials'')]))
         test_client ''CarRoute'' scenario_data
     = Inr (Error (HEREError (JStr ''Invalid credentials'')))
   \<and> canned (JObj []) (BuildUrl (baseUrl test_client) scenario_data) (timeout test_client)
     = Inr (JObj [])
   \<and> map_of ([] :: (string \<times> json) list) ''response'' = None
   \<and> map_of ([] :: (string \<times> json) list) ''details'' = None
   \<and> RoutingApi_get (canned (JObj [])) test_client ''CarRoute'' scenario_data
     = Inr (Error (HEREError (JStr ''Error occured on CarRoute'')))"
  using error_envelope_returns_HEREError
    [of "canned (JObj [(''details'', JStr ''Invalid credentials'')])" test_client scenario_data
        "[(''details'', JStr ''Invalid credentials'')]" "JStr ''Invalid credentials''" "''CarRoute''"]
    error_envelope_returns_HEREError
    [of "canned (JObj [])" test_client scenario_data "[]" JNull "''CarRoute''"]
  by (simp add: canned_def)

text \<open>
  C5 (as the specification states it, refuted): a call can yield neither model. When the
  HTTP request fails, \<open>__get\<close> lets the exception through and returns nothing.
\<close>

theorem transport_failure_yields_neither:
  "RoutingApi_get no_connection test_client ''CarRoute'' scenario_data = Inl TransportError
   \<and> \<not> yields_ResponseModel (RoutingApi_get no_connection test_client ''CarRoute'' scenario_data)
   \<and> \<not> yields_APIError (RoutingApi_get no_connection test_client ''CarRoute'' scenario_data)"
  by (simp add: RoutingApi_get_def no_connection_def)

text \<open>
  C5 (amended): no call of the dispatch routine yields both a response model and an
  \<open>HEREError\<close>. A call whose request and decoding deliver a JSON object yields exactly one
  of them: the response model when the top-level \<open>response\<close> is present and not null, the
  \<open>HEREError\<close> otherwise. A call whose request or decoding fails, or whose document is not
  an object, ends in an exception and yields neither.
\<close>

theorem dispatch_one_outcome:
  "\<not> (yields_ResponseModel (RoutingApi_get fetch self caller data)
       \<and> yields_APIError (RoutingApi_get fetch self caller data))
   \<and> (fetch (BuildUrl (baseUrl self) data) (timeout self) = Inr (JObj d) \<longrightarrow>
        (yields_ResponseModel (RoutingApi_get fetch self caller data)
           \<longleftrightarrow> dict_get d ''response'' JNull \<noteq> JNull)
        \<and> (yields_APIError (RoutingApi_get fetch self caller data)
           \<longleftrightarrow> dict_get d ''response'' JNull = JNull))
   \<and> (\<not> delivers_object (fetch (BuildUrl (baseUrl self) data) (timeout self)) \<longrightarrow>
        isl (RoutingApi_get fetch self caller data)
        \<and> \<not> yields_ResponseModel (RoutingApi_get fetch self caller data)
        \<and> \<not> yields_APIError (RoutingApi_get fetch self caller data))"
proof (intro conjI impI)
  show "\<not> (yields_ResponseModel (RoutingApi_get fetch self caller data)
       \<and> yields_APIError (RoutingApi_get fetch self caller data))"
    by (cases "RoutingApi_get fetch self caller data" rule: yields_ResponseModel.cases) auto
next
  assume obj: "fetch (BuildUrl (baseUrl self) data) (timeout self) = Inr (JObj d)"
  show "yields_ResponseModel (RoutingApi_get fetch self caller data)
           \<longleftrightarrow> dict_get d ''response'' JNull \<noteq> JNull"
    using obj by (simp add: RoutingApi_get_object)
  show "yields_APIError (RoutingApi_get fetch self caller data)
           \<longleftrightarrow> dict_get d ''response'' JNull = JNull"
    using obj by (simp add: RoutingApi_get_object)
next
  assume "\<not> delivers_object (fetch (BuildUrl (baseUrl self) data) (timeout self))"
  then obtain e where e: "RoutingApi_get fetch self caller data = Inl e"
    using RoutingApi_get_no_object by blast
  show "isl (RoutingApi_get fetch self caller data)" by (simp add: e)
  show "\<not> yields_ResponseModel (RoutingApi_get fetch self caller data)" by (simp add: e)
  show "\<not> yields_APIError (RoutingApi_get fetch self caller data)" by (simp add: e)
qed

theorem dispatch_one_outcome_witness:
  "canned (JObj [(''response'', JObj [(''route'', JArr [])])])
       (BuildUrl (baseUrl test_client) scenario_data) (timeout test_client)
     = Inr (JObj [(''response'', JObj [(''route'', JArr [])])])
   \<and> yields_ResponseModel
       (RoutingApi_get (canned (JObj [(''response'', JObj [(''route'', JArr [])])]))
          test_client ''CarRoute'' scenario_data)
   \<and> \<not> yields_APIError
       (RoutingApi_get (canned (JObj [(''response'', JObj [(''route'', JArr [])])]))
          test_client ''CarRoute'' scenario_data)
   \<and> \<not> delivers_object
       (no_connection (BuildUrl (baseUrl test_client) scenario_data) (timeout test_client))
   \<and> isl (RoutingApi_get no_connection test_client ''CarRoute'' scenario_data)"
  using dispatch_one_outcome
    [of "canned (JObj [(''response'', JObj [(''route'', JArr [])])])" test_client "''CarRoute''"
        scenario_data "[(''response'', JObj [(''route'', JArr [])])]"]
    dispatch_one_outcome [of no_connection test_client "''CarRoute''" scenario_data "[]"]
  by (simp add: canned_def no_connection_def dict_get_def)

subsection \<open>Credentials, flags and the driving-route scenario\<close>

text \<open>
  C6: every public route operation, whenever it assembles a mapping (each waypoint has at
  least its two coordinates), puts into it exactly one \<open>app_id\<close> entry and exactly one
  \<open>app_code\<close> entry, equal to the credentials stored in the client. With the credentials
  \<open>app_id\<close> and \<open>app_code\<close>, the URL built from the mapping contains both \<open>app_id=app_id\<close> and
  \<open>app_code=app_code\<close> as substrings.
\<close>

theorem credentials_in_every_request:
  assumes "2 \<le> length wa" and "2 \<le> length wb" and "2 \<le> length wc"
  shows "injects_credentials self (CarRoute_data fmt str_of self wa wb modes)
       \<and> injects_credentials self (PedastrianRoute_data fmt str_of self wa wb modes)
       \<and> injects_credentials self (IntermediateRoute_data fmt str_of self wa wb wc modes)
       \<and> injects_credentials self (PublicTransport_data fmt str_of self wa wb combine_change modes)
       \<and> injects_credentials self (LocationNearMotorway_data fmt str_of self wa wb modes)
       \<and> injects_credentials self (TruckRoute_data fmt str_of self wa wb modes)
       \<and> (app_id self = Some ''app_id'' \<and> app_code self = Some ''app_code'' \<longrightarrow>
            url_has_credentials self (CarRoute_data fmt str_of self wa wb modes)
          \<and> url_has_credentials self (PedastrianRoute_data fmt str_of self wa wb modes)
          \<and> url_has_credentials self (IntermediateRoute_data fmt str_of self wa wb wc modes)
          \<and> url_has_credentials self
               (PublicTransport_data fmt str_of self wa wb combine_change modes)
          \<and> url_has_credentials self (LocationNearMotorway_data fmt str_of self wa wb modes)
          \<and> url_has_credentials self (TruckRoute_data fmt str_of self wa wb modes))"
proof -
  note ok = CarRoute_data_ok [OF assms(1,2)] PedastrianRoute_data_ok [OF assms(1,2)]
    IntermediateRoute_data_ok [OF assms] PublicTransport_data_ok [OF assms(1,2)]
    LocationNearMotorway_data_ok [OF assms(1,2)] TruckRoute_data_ok [OF assms(1,2)]
  have creds: "injects_credentials self (CarRoute_data fmt str_of self wa wb modes)"
    "injects_credentials self (PedastrianRoute_data fmt str_of self wa wb modes)"
    "injects_credentials self (IntermediateRoute_data fmt str_of self wa wb wc modes)"
    "injects_credentials self (PublicTransport_data fmt str_of self wa wb combine_change modes)"
    "injects_credentials self (LocationNearMotorway_data fmt str_of self wa wb modes)"
    "injects_credentials self (TruckRoute_data fmt str_of self wa wb modes)"
    by (simp_all add: ok injects_credentials_def)
  have urls: "url_has_credentials self (CarRoute_data fmt str_of self wa wb modes)"
    "url_has_credentials self (PedastrianRoute_data fmt str_of self wa wb modes)"
    "url_has_credentials self (IntermediateRoute_data fmt str_of self wa wb wc modes)"
    "url_has_credentials self (PublicTransport_data fmt str_of self wa wb combine_change modes)"
    "url_has_credentials self (LocationNearMotorway_data fmt str_of self wa wb modes)"
    "url_has_credentials self (TruckRoute_data fmt str_of self wa wb modes)"
    if "app_id self = Some ''app_id''" and "app_code self = Some ''app_code''"
    using that
    by (simp_all add: ok url_has_credentials_def url_contains_app_id url_contains_app_code
        del: url_contains.simps)
  from creds urls show ?thesis by blast
qed

theorem credentials_in_every_request_witness:
  "2 \<le> length [''52.5'', ''13.4''] \<and> 2 \<le> length [''52.4'', ''13.5'']
   \<and> 2 \<le> length [''52.3'', ''13.6'']
   \<and> app_id test_client = Some ''app_id'' \<and> app_code test_client = Some ''app_code''
   \<and> injects_credentials test_client
        (CarRoute_data id RouteMode_str test_client
           [''52.5'', ''13.4''] [''52.4'', ''13.5''] CarRoute_modes)
   \<and> url_has_credentials test_client
        (CarRoute_data id RouteMode_str test_client
           [''52.5'', ''13.4''] [''52.4'', ''13.5''] CarRoute_modes)
   \<and> url_has_credentials test_client
        (PublicTransport_data id RouteMode_str test_client
           [''52.5'', ''13.4''] [''52.4'', ''13.5''] True CarRoute_modes)"
  using credentials_in_every_request
    [of "[''52.5'', ''13.4'']" "[''52.4'', ''13.5'']" "[''52.3'', ''13.6'']" test_client
        id RouteMode_str CarRoute_modes True]
  by (simp add: test_client_def RoutingApi_init_def SetCredentials_def blank_def)

text \<open>
  C7: the public-transit operation serializes \<open>combine_change\<close> as the literal \<open>true\<close> when
  the input is true and the literal \<open>false\<close> when it is false, and in neither case as
  Python's \<open>True\<close> or \<open>False\<close>.
\<close>

theorem combine_change_literal:
  assumes "2 \<le> length wa" and "2 \<le> length wb"
  shows "exactly_one_entry (PublicTransport_data fmt str_of self wa wb True modes)
           ''combine_change'' (Some ''true'')
       \<and> exactly_one_entry (PublicTransport_data fmt str_of self wa wb False modes)
           ''combine_change'' (Some ''false'')
       \<and> \<not> exactly_one_entry (PublicTransport_data fmt str_of self wa wb True modes)
           ''combine_change'' (Some ''True'')
       \<and> \<not> exactly_one_entry (PublicTransport_data fmt str_of self wa wb False modes)
           ''combine_change'' (Some ''False'')"
  by (simp add: PublicTransport_data_ok [OF assms])

theorem combine_change_literal_witness:
  "2 \<le> length [''52.5'', ''13.4''] \<and> 2 \<le> length [''52.4'', ''13.5'']
   \<and> exactly_one_entry
        (PublicTransport_data id RouteMode_str test_client
           [''52.5'', ''13.4''] [''52.4'', ''13.5''] True PublicTransport_modes)
        ''combine_change'' (Some ''true'')
   \<and> exactly_one_entry
        (PublicTransport_data id RouteMode_str test_client
           [''52.5'', ''13.4''] [''52.4'', ''13.5''] False PublicTransport_modes)
        ''combine_change'' (Some ''false'')"
  using combine_change_literal
    [of "[''52.5'', ''13.4'']" "[''52.4'', ''13.5'']" id RouteMode_str test_client
        PublicTransport_modes]
  by simp

text \<open>
  C8: the driving-route operation of a client constructed with no timeout, called with
  two waypoints whose coordinates the runtime prints as \<open>52.5\<close>, \<open>13.4\<close> and \<open>52.4\<close>, \<open>13.5\<close>
  and with the default modes, assembles the mapping with \<open>waypoint0 = 52.5,13.4\<close>,
  \<open>waypoint1 = 52.4,13.5\<close>, \<open>mode = car;fastest\<close>, the two credentials and \<open>departure = now\<close>,
  and requests the URL built from the routing endpoint and that mapping, with timeout 20.
  When the answer is a JSON object with a non-null \<open>response\<close>, the call returns a response
  model holding that \<open>response\<close>.
\<close>

theorem CarRoute_scenario:
  assumes "fmt lat_a = ''52.5''" and "fmt lon_a = ''13.4''"
    and "fmt lat_b = ''52.4''" and "fmt lon_b = ''13.5''"
  shows "CarRoute_data fmt RouteMode_str (RoutingApi_init i c None)
           [lat_a, lon_a] [lat_b, lon_b] CarRoute_modes
         = Inr [(''waypoint0'', Some ''52.5,13.4''),
                (''waypoint1'', Some ''52.4,13.5''),
                (''mode'', Some ''car;fastest''),
                (''app_id'', i),
                (''app_code'', c),
                (''departure'', Some ''now'')]
       \<and> (fetch (BuildUrl ''https://route.cit.api.here.com/routing/7.2/calculateroute.json''
                   [(''waypoint0'', Some ''52.5,13.4''),
                    (''waypoint1'', Some ''52.4,13.5''),
                    (''mode'', Some ''car;fastest''),
                    (''app_id'', i),
                    (''app_code'', c),
                    (''departure'', Some ''now'')]) 20 = Inr (JObj d)
            \<and> map_of d ''response'' = Some v \<and> v \<noteq> JNull
          \<longrightarrow> CarRoute fetch fmt RouteMode_str (RoutingApi_init i c None)
                [lat_a, lon_a] [lat_b, lon_b] CarRoute_modes
              = Inr (Response \<lparr>response = v\<rparr>))"
proof -
  have data: "CarRoute_data fmt RouteMode_str (RoutingApi_init i c None)
           [lat_a, lon_a] [lat_b, lon_b] CarRoute_modes
         = Inr [(''waypoint0'', Some ''52.5,13.4''),
                (''waypoint1'', Some ''52.4,13.5''),
                (''mode'', Some ''car;fastest''),
                (''app_id'', i),
                (''app_code'', c),
                (''departure'', Some ''now'')]"
    using assms by (simp add: CarRoute_data_ok prepare_default init_fields)
  show ?thesis
    by (simp add: data CarRoute_def RoutingApi_get_def init_fields new_from_jsondict_def
        dict_get_def)
qed

theorem CarRoute_scenario_witness:
  "id ''52.5'' = ''52.5'' \<and> id ''13.4'' = ''13.4'' \<and> id ''52.4'' = ''52.4''
   \<and> id ''13.5'' = ''13.5''
   \<and> canned (JObj [(''response'', JObj [(''route'', JArr [])])])
        (BuildUrl ''https://route.cit.api.here.com/routing/7.2/calculateroute.json''
           scenario_data) 20
      = Inr (JObj [(''response'', JObj [(''route'', JArr [])])])
   \<and> map_of [(''response'', JObj [(''route'', JArr [])])] ''response''
      = Some (JObj [(''route'', JArr [])])
   \<and> JObj [(''route'', JArr [])] \<noteq> JNull
   \<and> CarRoute_data id RouteMode_str test_client
        [''52.5'', ''13.4''] [''52.4'', ''13.5''] CarRoute_modes = Inr scenario_data
   \<and> CarRoute (canned (JObj [(''response'', JObj [(''route'', JArr [])])])) id RouteMode_str
        test_client [''52.5'', ''13.4''] [''52.4'', ''13.5''] CarRoute_modes
      = Inr (Response \<lparr>response = JObj [(''route'', JArr [])]\<rparr>)"
  using CarRoute_scenario
    [of id "''52.5''" "''13.4''" "''52.4''" "''13.5''" "Some ''app_id''" "Some ''app_code''"
        "canned (JObj [(''response'', JObj [(''route'', JArr [])])])"
        "[(''response'', JObj [(''route'', JArr [])])]" "JObj [(''route'', JArr [])]"]
  by (simp add: test_client_def scenario_data_def canned_def)

end
